theory Spec2Isabelle
  imports Main
begin

section \<open>Values exchanged with the caller and with the calendar service\<close>

text \<open>
  \<open>runTool\<close> receives \<open>args: any\<close>, so the input of validation is an arbitrary
  JavaScript value. The payload \<open>'n\<close> of \<open>JNum\<close> is a number other than NaN; no
  operation of the modelled code inspects it. An object is a finite map from property
  names to values: a missing property reads as \<open>JUndefined\<close>.
\<close>

datatype 'n jsval =
    JUndefined
  | JNull
  | JBool bool
  | JNum 'n
  | JNaN
  | JStr string
  | JArr "'n jsval list"
  | JObj "string \<Rightarrow> 'n jsval option"

type_synonym 'n jsobject = "string \<Rightarrow> 'n jsval option"

definition getProp :: "'n jsobject \<Rightarrow> string \<Rightarrow> 'n jsval" where
  "getProp obj k = (case obj k of None \<Rightarrow> JUndefined | Some v \<Rightarrow> v)"

text \<open>Truthiness of an optional string (\<open>!x\<close>, \<open>x || y\<close>): \<open>undefined\<close> and the empty
  string are falsy.\<close>

fun truthy :: "string option \<Rightarrow> bool" where
  "truthy None = False"
| "truthy (Some s) = (s \<noteq> [])"

definition js_or :: "string option \<Rightarrow> string option \<Rightarrow> string option" where
  "js_or a b = (if truthy a then a else b)"

fun optStr :: "string option \<Rightarrow> 'n jsval" where
  "optStr None = JUndefined"
| "optStr (Some s) = JStr s"

section \<open>Validation: \<open>src/schemas/validators.ts\<close>\<close>

subsection \<open>The regular expression \<open>isoDateTimeWithTimezone\<close>\<close>

text \<open>
  \<open>/^\d{4}-\d{2}-\d{2}T\d{2}:\d{2}:\d{2}(Z|[+-]\d{2}:\d{2})$/\<close>: an alternation of two
  fixed sequences of character classes, anchored at both ends.
\<close>

datatype charClass = Digit | Lit char | Sign

fun inClass :: "charClass \<Rightarrow> char \<Rightarrow> bool" where
  "inClass Digit c = (c \<in> set ''0123456789'')"
| "inClass (Lit l) c = (c = l)"
| "inClass Sign c = (c = CHR ''+'' \<or> c = CHR ''-'')"

fun matchSeq :: "charClass list \<Rightarrow> string \<Rightarrow> bool" where
  "matchSeq [] [] = True"
| "matchSeq (p # ps) (c # cs) = (inClass p c \<and> matchSeq ps cs)"
| "matchSeq _ _ = False"

definition dateTimePart :: "charClass list" where
  "dateTimePart =
     [Digit, Digit, Digit, Digit, Lit CHR ''-'', Digit, Digit, Lit CHR ''-'', Digit, Digit,
      Lit CHR ''T'', Digit, Digit, Lit CHR '':'', Digit, Digit, Lit CHR '':'', Digit, Digit]"

definition isoDateTimeWithTimezone :: "string \<Rightarrow> bool" where
  "isoDateTimeWithTimezone s =
     (matchSeq (dateTimePart @ [Lit CHR ''Z'']) s \<or>
      matchSeq (dateTimePart @ [Sign, Digit, Digit, Lit CHR '':'', Digit, Digit]) s)"

subsection \<open>The schema combinators used by \<open>UpdateEventArgumentsSchema\<close>\<close>

definition z_string :: "'n jsval \<Rightarrow> string option" where
  "z_string v = (case v of JStr s \<Rightarrow> Some s | _ \<Rightarrow> None)"

definition z_isoString :: "'n jsval \<Rightarrow> string option" where
  "z_isoString v =
     (case v of JStr s \<Rightarrow> (if isoDateTimeWithTimezone s then Some s else None) | _ \<Rightarrow> None)"

definition z_boolean :: "'n jsval \<Rightarrow> bool option" where
  "z_boolean v = (case v of JBool b \<Rightarrow> Some b | _ \<Rightarrow> None)"

definition z_number :: "'n jsval \<Rightarrow> 'n option" where
  "z_number v = (case v of JNum n \<Rightarrow> Some n | _ \<Rightarrow> None)"

definition z_optional :: "('n jsval \<Rightarrow> 'a option) \<Rightarrow> 'n jsval \<Rightarrow> 'a option option" where
  "z_optional p v = (case v of JUndefined \<Rightarrow> Some None | _ \<Rightarrow> map_option Some (p v))"

definition z_array :: "('n jsval \<Rightarrow> 'a option) \<Rightarrow> 'n jsval \<Rightarrow> 'a list option" where
  "z_array p v = (case v of JArr xs \<Rightarrow> those (map p xs) | _ \<Rightarrow> None)"

datatype ReminderMethod = Email | Popup

record 'n Reminder =
  method' :: ReminderMethod
  minutes :: 'n

record 'n Reminders =
  useDefault :: bool
  overrides :: "'n Reminder list option"

definition z_method :: "'n jsval \<Rightarrow> ReminderMethod option" where
  "z_method v =
     (case v of
        JUndefined \<Rightarrow> Some Popup
      | JStr s \<Rightarrow> (if s = ''email'' then Some Email else if s = ''popup'' then Some Popup else None)
      | _ \<Rightarrow> None)"

definition ReminderSchema :: "'n jsval \<Rightarrow> 'n Reminder option" where
  "ReminderSchema v =
     (case v of
        JObj obj \<Rightarrow>
          Option.bind (z_method (getProp obj ''method'')) (\<lambda>m.
          Option.bind (z_number (getProp obj ''minutes'')) (\<lambda>n.
          Some \<lparr>method' = m, minutes = n\<rparr>))
      | _ \<Rightarrow> None)"

definition RemindersSchema :: "'n jsval \<Rightarrow> 'n Reminders option" where
  "RemindersSchema v =
     (case v of
        JObj obj \<Rightarrow>
          Option.bind (z_boolean (getProp obj ''useDefault'')) (\<lambda>u.
          Option.bind (z_optional (z_array ReminderSchema) (getProp obj ''overrides'')) (\<lambda>ov.
          Some \<lparr>useDefault = u, overrides = ov\<rparr>))
      | _ \<Rightarrow> None)"

record Attendee =
  email :: string

definition z_attendee :: "'n jsval \<Rightarrow> Attendee option" where
  "z_attendee v =
     (case v of
        JObj obj \<Rightarrow> Option.bind (z_string (getProp obj ''email'')) (\<lambda>e. Some \<lparr>email = e\<rparr>)
      | _ \<Rightarrow> None)"

datatype ModificationScope = ScopeSingle | ScopeAll | ScopeFuture

definition z_modificationScope :: "'n jsval \<Rightarrow> ModificationScope option" where
  "z_modificationScope v =
     (case v of
        JUndefined \<Rightarrow> Some ScopeAll
      | JStr s \<Rightarrow>
          (if s = ''single'' then Some ScopeSingle
           else if s = ''all'' then Some ScopeAll
           else if s = ''future'' then Some ScopeFuture
           else None)
      | _ \<Rightarrow> None)"

datatype SendUpdates = SendAll | SendExternalOnly | SendNone

definition z_sendUpdates :: "'n jsval \<Rightarrow> SendUpdates option" where
  "z_sendUpdates v =
     (case v of
        JStr s \<Rightarrow>
          (if s = ''all'' then Some SendAll
           else if s = ''externalOnly'' then Some SendExternalOnly
           else if s = ''none'' then Some SendNone
           else None)
      | _ \<Rightarrow> None)"

subsection \<open>\<open>UpdateEventArgumentsSchema\<close>\<close>

record 'n UpdateEventArguments =
  calendarId :: string
  eventId :: string
  summary :: "string option"
  description :: "string option"
  start :: "string option"
  end' :: "string option"
  timeZone :: string
  attendees :: "Attendee list option"
  location :: "string option"
  colorId :: "string option"
  reminders :: "'n Reminders option"
  recurrence :: "string list option"
  modificationScope :: ModificationScope
  originalStartTime :: "string option"
  futureStartDate :: "string option"
  sendUpdates :: "SendUpdates option"

text \<open>The \<open>z.object({...})\<close> part: every property is checked by its own schema, unknown
  properties are dropped, \<open>modificationScope\<close> defaults to \<open>all\<close>.\<close>

definition UpdateEventObject :: "'n jsval \<Rightarrow> 'n UpdateEventArguments option" where
  "UpdateEventObject v =
     (case v of
        JObj obj \<Rightarrow>
          Option.bind (z_string (getProp obj ''calendarId'')) (\<lambda>a1.
          Option.bind (z_string (getProp obj ''eventId'')) (\<lambda>a2.
          Option.bind (z_optional z_string (getProp obj ''summary'')) (\<lambda>a3.
          Option.bind (z_optional z_string (getProp obj ''description'')) (\<lambda>a4.
          Option.bind (z_optional z_isoString (getProp obj ''start'')) (\<lambda>a5.
          Option.bind (z_optional z_isoString (getProp obj ''end'')) (\<lambda>a6.
          Option.bind (z_string (getProp obj ''timeZone'')) (\<lambda>a7.
          Option.bind (z_optional (z_array z_attendee) (getProp obj ''attendees'')) (\<lambda>a8.
          Option.bind (z_optional z_string (getProp obj ''location'')) (\<lambda>a9.
          Option.bind (z_optional z_string (getProp obj ''colorId'')) (\<lambda>a10.
          Option.bind (z_optional RemindersSchema (getProp obj ''reminders'')) (\<lambda>a11.
          Option.bind (z_optional (z_array z_string) (getProp obj ''recurrence'')) (\<lambda>a12.
          Option.bind (z_modificationScope (getProp obj ''modificationScope'')) (\<lambda>a13.
          Option.bind (z_optional z_isoString (getProp obj ''originalStartTime'')) (\<lambda>a14.
          Option.bind (z_optional z_isoString (getProp obj ''futureStartDate'')) (\<lambda>a15.
          Option.bind (z_optional z_sendUpdates (getProp obj ''sendUpdates'')) (\<lambda>a16.
          Some \<lparr>calendarId = a1, eventId = a2, summary = a3, description = a4, start = a5,
                end' = a6, timeZone = a7, attendees = a8, location = a9, colorId = a10,
                reminders = a11, recurrence = a12, modificationScope = a13,
                originalStartTime = a14, futureStartDate = a15, sendUpdates = a16\<rparr>
          ))))))))))))))))
      | _ \<Rightarrow> None)"

text \<open>
  The JavaScript runtime is outside the repository: \<open>parseDate\<close> stands for
  \<open>new Date(s)\<close> read as milliseconds since the epoch (\<open>None\<close> is an Invalid Date, whose
  time value is NaN), and \<open>now\<close> for \<open>new Date()\<close> at validation. A comparison with
  NaN is false.
\<close>

fun dateGreater :: "int option \<Rightarrow> int \<Rightarrow> bool" where
  "dateGreater None now = False"
| "dateGreater (Some t) now = (t > now)"

definition refineOriginalStartTime :: "'n UpdateEventArguments \<Rightarrow> bool" where
  "refineOriginalStartTime data =
     (if modificationScope data = ScopeSingle \<and> \<not> truthy (originalStartTime data) then False
      else True)"

definition refineFutureStartDate :: "'n UpdateEventArguments \<Rightarrow> bool" where
  "refineFutureStartDate data =
     (if modificationScope data = ScopeFuture \<and> \<not> truthy (futureStartDate data) then False
      else True)"

definition refineInFuture :: "(string \<Rightarrow> int option) \<Rightarrow> int \<Rightarrow> 'n UpdateEventArguments \<Rightarrow> bool" where
  "refineInFuture parseDate now data =
     (case futureStartDate data of
        Some s \<Rightarrow> (if s \<noteq> [] then dateGreater (parseDate s) now else True)
      | None \<Rightarrow> True)"

datatype ZodError =
    InvalidObject
  | RefinementIssues "(string \<times> string) list"

definition refinementIssues ::
  "(string \<Rightarrow> int option) \<Rightarrow> int \<Rightarrow> 'n UpdateEventArguments \<Rightarrow> (string \<times> string) list" where
  "refinementIssues parseDate now data =
     (if refineOriginalStartTime data then []
      else [(''originalStartTime'',
             ''originalStartTime is required when modificationScope is 'single'' @ [CHR 0x27])]) @
     (if refineFutureStartDate data then []
      else [(''futureStartDate'',
             ''futureStartDate is required when modificationScope is 'future'' @ [CHR 0x27])]) @
     (if refineInFuture parseDate now data then []
      else [(''futureStartDate'', ''futureStartDate must be in the future'')])"

text \<open>\<open>UpdateEventArgumentsSchema.parse(args)\<close>: the validated arguments, or the thrown
  \<open>ZodError\<close>. When the object part is accepted, the three refinements all run and every
  failed one contributes its issue (path, message).\<close>

definition UpdateEventArgumentsSchema_parse ::
  "(string \<Rightarrow> int option) \<Rightarrow> int \<Rightarrow> 'n jsval \<Rightarrow> ZodError + 'n UpdateEventArguments" where
  "UpdateEventArgumentsSchema_parse parseDate now v =
     (case UpdateEventObject v of
        None \<Rightarrow> Inl InvalidObject
      | Some data \<Rightarrow>
          (if refinementIssues parseDate now data = [] then Inr data
           else Inl (RefinementIssues (refinementIssues parseDate now data))))"

section \<open>The calendar service and the helpers\<close>

text \<open>
  \<open>calendar_v3.Schema$Event\<close>, as far as the handler and its helpers read it. A property
  of the service's event is a value, \<open>null\<close> or \<open>undefined\<close>; \<open>ev_startDateTime\<close> and
  \<open>ev_endDateTime\<close> are \<open>start.dateTime\<close> and \<open>end.dateTime\<close>, \<open>ev_others\<close> holds the
  remaining properties.
\<close>

datatype 'a nullable = Undefined | Null | Value 'a

record 'n Event =
  ev_id :: "string nullable"
  ev_summary :: "string nullable"
  ev_recurrence :: "string list nullable"
  ev_recurringEventId :: "string nullable"
  ev_startDateTime :: "string nullable"
  ev_endDateTime :: "string nullable"
  ev_others :: "'n jsobject"

text \<open>The calls the handler issues on \<open>calendar.events\<close>, with their parameters:
  \<open>get({calendarId, eventId})\<close>, \<open>patch({calendarId, eventId, requestBody, sendUpdates})\<close>,
  \<open>insert({calendarId, requestBody, sendUpdates})\<close>.\<close>

datatype 'n call =
    EventsGet string string
  | EventsPatch string string "'n jsobject" "SendUpdates option"
  | EventsInsert string "'n jsobject" "SendUpdates option"

text \<open>
  What can be thrown. \<open>External x\<close> is an error raised by code outside the sources (the
  calendar service, a helper); \<open>RecurringEventError\<close> is the handler's own error class,
  with the key of \<open>RECURRING_EVENT_ERRORS\<close> it carries.
\<close>

datatype RECURRING_EVENT_ERRORS =
    NON_RECURRING_SCOPE
  | INVALID_SCOPE
  | MISSING_ORIGINAL_TIME
  | MISSING_FUTURE_DATE

datatype 'x jsError = Error string | TypeError | External 'x

datatype 'o thrown = RecurringEventError string RECURRING_EVENT_ERRORS | Other 'o

text \<open>
  \<open>RecurringEventHelpers.ts\<close> is not among the sources: the object \<open>helpers\<close> is a
  parameter, a record of its methods. \<open>calendar\<close> is the service behind
  \<open>helpers.getCalendar()\<close>: a call either throws or answers with \<open>response.data\<close>
  (\<open>None\<close> when the response carries no data), and moves the service's state \<open>'w\<close>.
  Every other method may throw.
\<close>

record ('n, 'x, 'w) RecurringEventHelpers =
  calendar :: "'n call \<Rightarrow> 'w \<Rightarrow> ('x + 'n Event option) \<times> 'w"
  formatInstanceId :: "string \<Rightarrow> string \<Rightarrow> 'x + string"
  buildUpdateRequestBody :: "'n UpdateEventArguments \<Rightarrow> 'x + 'n jsobject"
  calculateUntilDate :: "string \<Rightarrow> 'x + string"
  updateRecurrenceWithUntil :: "string list \<Rightarrow> string \<Rightarrow> 'x + string list"
  calculateEndTime :: "string \<Rightarrow> 'n Event \<Rightarrow> 'x + string"
  cleanEventForDuplication :: "'n Event \<Rightarrow> 'x + 'n jsobject"

subsection \<open>Sequencing of asynchronous steps\<close>

text \<open>
  A step runs on the service's state and the log of the calls issued so far, and ends
  with a thrown value or a result. \<open>await\<close> is \<open>andThen\<close>.
\<close>

type_synonym ('n, 'x, 'w, 'a) step =
  "'w \<times> 'n call list \<Rightarrow> ('x jsError thrown + 'a) \<times> 'w \<times> 'n call list"

definition ret :: "'a \<Rightarrow> ('n, 'x, 'w, 'a) step" where
  "ret a = (\<lambda>s. (Inr a, s))"

definition throw :: "'x jsError thrown \<Rightarrow> ('n, 'x, 'w, 'a) step" where
  "throw e = (\<lambda>s. (Inl e, s))"

definition andThen ::
  "('n, 'x, 'w, 'a) step \<Rightarrow> ('a \<Rightarrow> ('n, 'x, 'w, 'b) step) \<Rightarrow> ('n, 'x, 'w, 'b) step" where
  "andThen m f = (\<lambda>s. case m s of (Inl e, s') \<Rightarrow> (Inl e, s') | (Inr a, s') \<Rightarrow> f a s')"

definition helper :: "'x + 'a \<Rightarrow> ('n, 'x, 'w, 'a) step" where
  "helper r = (case r of Inl x \<Rightarrow> throw (Other (External x)) | Inr a \<Rightarrow> ret a)"

definition events ::
  "('n, 'x, 'w) RecurringEventHelpers \<Rightarrow> 'n call \<Rightarrow> ('n, 'x, 'w, 'n Event option) step" where
  "events helpers c =
     (\<lambda>(w, log). case calendar helpers c w of
        (Inl x, w') \<Rightarrow> (Inl (Other (External x)), (w', log @ [c]))
      | (Inr data, w') \<Rightarrow> (Inr data, (w', log @ [c])))"

subsection \<open>The event-type classifier\<close>

datatype EventType = single | recurring | instance'

text \<open>
  Modelled from the spec: \<open>detectEventType\<close> of \<open>RecurringEventHelpers.ts\<close>, which is
  not among the sources. The spec, 4.2: the classifier fetches the event's current
  representation and inspects it: a non-empty repeat-rule list gives \<open>recurring\<close>, a
  master-series back-reference gives \<open>instance\<close>, neither gives \<open>single\<close>; a failure of
  the fetch is surfaced. Reading a property of a missing representation is a TypeError.
\<close>

definition classify :: "'n Event \<Rightarrow> EventType" where
  "classify ev =
     (case ev_recurrence ev of
        Value (r # rs) \<Rightarrow> recurring
      | _ \<Rightarrow> (case ev_recurringEventId ev of Value i \<Rightarrow> instance' | _ \<Rightarrow> single))"

definition detectEventType ::
  "('n, 'x, 'w) RecurringEventHelpers \<Rightarrow> string \<Rightarrow> string \<Rightarrow> ('n, 'x, 'w, EventType) step" where
  "detectEventType helpers evId calId =
     andThen (events helpers (EventsGet calId evId)) (\<lambda>data.
       case data of
         None \<Rightarrow> throw (Other TypeError)
       | Some ev \<Rightarrow> ret (classify ev))"

section \<open>The handler: \<open>src/handlers/core/UpdateEventHandler.ts\<close>\<close>

definition updateSingleInstance ::
  "('n, 'x, 'w) RecurringEventHelpers \<Rightarrow> 'n UpdateEventArguments \<Rightarrow> ('n, 'x, 'w, 'n Event) step" where
  "updateSingleInstance helpers args =
     (if \<not> truthy (originalStartTime args) then
        throw (RecurringEventError ''originalStartTime is required for single instance updates''
                 MISSING_ORIGINAL_TIME)
      else
        andThen (helper (formatInstanceId helpers (eventId args) (the (originalStartTime args))))
          (\<lambda>instanceId.
        andThen (helper (buildUpdateRequestBody helpers args)) (\<lambda>requestBody.
        andThen (events helpers
                   (EventsPatch (calendarId args) instanceId requestBody (sendUpdates args)))
          (\<lambda>data.
        case data of
          None \<Rightarrow> throw (Other (Error ''Failed to update event instance''))
        | Some ev \<Rightarrow> ret ev))))"

definition updateAllInstances ::
  "('n, 'x, 'w) RecurringEventHelpers \<Rightarrow> 'n UpdateEventArguments \<Rightarrow> ('n, 'x, 'w, 'n Event) step" where
  "updateAllInstances helpers args =
     andThen (helper (buildUpdateRequestBody helpers args)) (\<lambda>requestBody.
     andThen (events helpers
                (EventsPatch (calendarId args) (eventId args) requestBody (sendUpdates args)))
       (\<lambda>data.
     case data of
       None \<Rightarrow> throw (Other (Error ''Failed to update event''))
     | Some ev \<Rightarrow> ret ev))"

text \<open>The request body of the truncating patch, \<open>{ recurrence: updatedRecurrence }\<close>.\<close>

definition truncationBody :: "string list \<Rightarrow> 'n jsobject" where
  "truncationBody updatedRecurrence = [''recurrence'' \<mapsto> JArr (map JStr updatedRecurrence)]"

text \<open>\<open>{ dateTime: ..., timeZone: args.timeZone }\<close>\<close>

definition dateTimeObject :: "string option \<Rightarrow> string \<Rightarrow> 'n jsval" where
  "dateTimeObject dt tz = JObj [''dateTime'' \<mapsto> optStr dt, ''timeZone'' \<mapsto> JStr tz]"

text \<open>The object spread \<open>{...cleaned, ...requestBody, start: ..., end: ...}\<close>: a later
  property replaces an earlier one of the same name.\<close>

definition newEvent ::
  "'n jsobject \<Rightarrow> 'n jsobject \<Rightarrow> 'n UpdateEventArguments \<Rightarrow> string option \<Rightarrow> 'n jsobject" where
  "newEvent cleaned requestBody args endTime =
     (cleaned ++ requestBody)
       (''start'' \<mapsto> dateTimeObject (js_or (start args) (futureStartDate args)) (timeZone args),
        ''end'' \<mapsto> dateTimeObject endTime (timeZone args))"

definition updateFutureInstances ::
  "('n, 'x, 'w) RecurringEventHelpers \<Rightarrow> 'n UpdateEventArguments \<Rightarrow> ('n, 'x, 'w, 'n Event) step" where
  "updateFutureInstances helpers args =
     (if \<not> truthy (futureStartDate args) then
        throw (RecurringEventError ''futureStartDate is required for future instance updates''
                 MISSING_FUTURE_DATE)
      else
        andThen (events helpers (EventsGet (calendarId args) (eventId args))) (\<lambda>originalData.
        case originalData of
          None \<Rightarrow> throw (Other TypeError)
        | Some originalEvent \<Rightarrow>
            (case ev_recurrence originalEvent of
               Value originalRecurrence \<Rightarrow>
                 andThen (helper (calculateUntilDate helpers (the (futureStartDate args))))
                   (\<lambda>untilDate.
                 andThen (helper (updateRecurrenceWithUntil helpers originalRecurrence untilDate))
                   (\<lambda>updatedRecurrence.
                 andThen (events helpers
                            (EventsPatch (calendarId args) (eventId args)
                               (truncationBody updatedRecurrence) (sendUpdates args)))
                   (\<lambda>patched.
                 andThen (helper (buildUpdateRequestBody helpers args)) (\<lambda>requestBody.
                 andThen
                   (if truthy (js_or (start args) (futureStartDate args)) then
                      (if truthy (end' args) then ret (end' args)
                       else andThen
                              (helper (calculateEndTime helpers
                                         (the (js_or (start args) (futureStartDate args)))
                                         originalEvent))
                              (\<lambda>t. ret (Some t)))
                    else ret (end' args))
                   (\<lambda>endTime.
                 andThen (helper (cleanEventForDuplication helpers originalEvent)) (\<lambda>cleaned.
                 andThen (events helpers
                            (EventsInsert (calendarId args)
                               (newEvent cleaned requestBody args endTime) (sendUpdates args)))
                   (\<lambda>data.
                 case data of
                   None \<Rightarrow> throw (Other (Error ''Failed to create new recurring event''))
                 | Some ev \<Rightarrow> ret ev)))))))
             | _ \<Rightarrow> throw (Other (Error ''Event does not have recurrence rules'')))))"

text \<open>
  \<open>updateEventWithScope\<close>. The \<open>try\<close> block awaits \<open>detectEventType\<close> and throws the scope
  error itself, so the \<open>catch\<close> sees those two: it rethrows a \<open>RecurringEventError\<close> as it
  is and throws \<open>handleGoogleApiError(error)\<close> otherwise (\<open>BaseToolHandler.ts\<close> is not
  among the sources: \<open>handleGoogleApiError\<close> is a parameter). The three branches are
  returned without \<open>await\<close>, so a rejection of theirs settles the returned promise
  directly and does not pass through the \<open>catch\<close>. The scope is one of the three
  literals by the type of \<open>args\<close>, which leaves the \<open>default\<close> branch of the \<open>switch\<close>
  without an input.
\<close>

definition nonRecurringScopeMessage :: string where
  "nonRecurringScopeMessage =
     ''Scope other than '' @ [CHR 0x22] @ ''all'' @ [CHR 0x22] @
     '' only applies to recurring events''"

definition scopeCheck ::
  "('n, 'x, 'w) RecurringEventHelpers \<Rightarrow> 'n UpdateEventArguments \<Rightarrow> ('n, 'x, 'w, unit) step" where
  "scopeCheck helpers args =
     andThen (detectEventType helpers (eventId args) (calendarId args)) (\<lambda>eventType.
       if modificationScope args \<noteq> ScopeAll \<and> eventType \<noteq> recurring then
         throw (RecurringEventError nonRecurringScopeMessage NON_RECURRING_SCOPE)
       else ret ())"

definition updateEventWithScope ::
  "('x jsError \<Rightarrow> 'x jsError) \<Rightarrow> ('n, 'x, 'w) RecurringEventHelpers \<Rightarrow>
   'n UpdateEventArguments \<Rightarrow> ('n, 'x, 'w, 'n Event) step" where
  "updateEventWithScope handleGoogleApiError helpers args =
     (\<lambda>s. case scopeCheck helpers args s of
        (Inl (RecurringEventError m c), s') \<Rightarrow> (Inl (RecurringEventError m c), s')
      | (Inl (Other e), s') \<Rightarrow> (Inl (Other (handleGoogleApiError e)), s')
      | (Inr u, s') \<Rightarrow>
          (case modificationScope args of
             ScopeSingle \<Rightarrow> updateSingleInstance helpers args s'
           | ScopeAll \<Rightarrow> updateAllInstances helpers args s'
           | ScopeFuture \<Rightarrow> updateFutureInstances helpers args s'))"

text \<open>\<open>runTool\<close>: validation, then the update, then the text of the result. A template
  literal prints a missing property as \<open>undefined\<close> and a null one as \<open>null\<close>.\<close>

fun template :: "string nullable \<Rightarrow> string" where
  "template Undefined = ''undefined''"
| "template Null = ''null''"
| "template (Value s) = s"

datatype 'x runToolError = ValidationError ZodError | UpdateError "'x jsError thrown"

definition runTool ::
  "(string \<Rightarrow> int option) \<Rightarrow> int \<Rightarrow> ('x jsError \<Rightarrow> 'x jsError) \<Rightarrow>
   ('n, 'x, 'w) RecurringEventHelpers \<Rightarrow> 'n jsval \<Rightarrow>
   'w \<times> 'n call list \<Rightarrow> ('x runToolError + string) \<times> 'w \<times> 'n call list" where
  "runTool parseDate now handleGoogleApiError helpers args s =
     (case UpdateEventArgumentsSchema_parse parseDate now args of
        Inl z \<Rightarrow> (Inl (ValidationError z), s)
      | Inr validArgs \<Rightarrow>
          (case updateEventWithScope handleGoogleApiError helpers validArgs s of
             (Inl e, s') \<Rightarrow> (Inl (UpdateError e), s')
           | (Inr event, s') \<Rightarrow>
               (Inr (''Event updated: '' @ template (ev_summary event) @ '' ('' @
                     template (ev_id event) @ '')''), s')))"

section \<open>The projected end of a split series\<close>

text \<open>
  Modelled from the spec: \<open>calculateEndTime\<close> of \<open>RecurringEventHelpers.ts\<close>, which is
  not among the sources. The spec, 4.4: \<open>estimateDuration(originalEvent)\<close> is the
  original event's (end - start), and \<open>projectEnd(newStart, duration)\<close> is
  newStart + duration. Instants are read by \<open>parseDate\<close> and written by \<open>toISOString\<close>,
  both of the runtime; an instant that cannot be read is NaN, and NaN propagates
  through the arithmetic.
\<close>

fun instant :: "(string \<Rightarrow> int option) \<Rightarrow> string nullable \<Rightarrow> int option" where
  "instant parseDate (Value s) = parseDate s"
| "instant parseDate _ = None"

fun minusInstant :: "int option \<Rightarrow> int option \<Rightarrow> int option" where
  "minusInstant (Some a) (Some b) = Some (a - b)"
| "minusInstant _ _ = None"

fun plusInstant :: "int option \<Rightarrow> int option \<Rightarrow> int option" where
  "plusInstant (Some a) (Some b) = Some (a + b)"
| "plusInstant _ _ = None"

definition estimateDuration :: "(string \<Rightarrow> int option) \<Rightarrow> 'n Event \<Rightarrow> int option" where
  "estimateDuration parseDate originalEvent =
     minusInstant (instant parseDate (ev_endDateTime originalEvent))
                  (instant parseDate (ev_startDateTime originalEvent))"

definition projectEnd :: "int option \<Rightarrow> int option \<Rightarrow> int option" where
  "projectEnd newStart duration = plusInstant newStart duration"

definition calculateEndTime_spec ::
  "(string \<Rightarrow> int option) \<Rightarrow> (int option \<Rightarrow> 'x + string) \<Rightarrow> string \<Rightarrow> 'n Event \<Rightarrow>
   'x + string" where
  "calculateEndTime_spec parseDate toISOString newStartTime originalEvent =
     toISOString (projectEnd (parseDate newStartTime) (estimateDuration parseDate originalEvent))"

section \<open>Properties of runs\<close>

text \<open>A call carries the caller's \<open>sendUpdates\<close> when it has that parameter and its
  value is the caller's; \<open>events.get\<close> has no such parameter.\<close>

definition carries :: "SendUpdates option \<Rightarrow> 'n call \<Rightarrow> bool" where
  "carries su c =
     (case c of
        EventsGet cal ev \<Rightarrow> False
      | EventsPatch cal ev body su' \<Rightarrow> su' = su
      | EventsInsert cal body su' \<Rightarrow> su' = su)"

definition mutating :: "'n call \<Rightarrow> bool" where
  "mutating c = (case c of EventsGet cal ev \<Rightarrow> False | _ \<Rightarrow> True)"

text \<open>\<open>issues P m\<close>: the step \<open>m\<close> only appends to the log, and every call it appends
  satisfies \<open>P\<close>. \<open>raises Q m\<close>: every value thrown by \<open>m\<close> satisfies \<open>Q\<close>.\<close>

definition issues :: "('n call \<Rightarrow> bool) \<Rightarrow> ('n, 'x, 'w, 'a) step \<Rightarrow> bool" where
  "issues P m =
     (\<forall>w log r w' log'. m (w, log) = (r, (w', log')) \<longrightarrow>
        (\<exists>new. log' = log @ new \<and> list_all P new))"

definition raises :: "('x jsError thrown \<Rightarrow> bool) \<Rightarrow> ('n, 'x, 'w, 'a) step \<Rightarrow> bool" where
  "raises Q m = (\<forall>s e s'. m s = (Inl e, s') \<longrightarrow> Q e)"

text \<open>The property \<open>k\<close> of the event an \<open>insert\<close> call creates, and the \<open>dateTime\<close> inside
  it when \<open>k\<close> is a time bound; nothing for another call.\<close>

definition insertedProperty :: "string \<Rightarrow> 'n call \<Rightarrow> 'n jsval option" where
  "insertedProperty k c = (case c of EventsInsert cal body su \<Rightarrow> body k | _ \<Rightarrow> None)"

definition insertedDateTime :: "string \<Rightarrow> 'n call \<Rightarrow> 'n jsval" where
  "insertedDateTime k c =
     (case insertedProperty k c of Some (JObj bound) \<Rightarrow> getProp bound ''dateTime'' | _ \<Rightarrow> JUndefined)"

section \<open>A small calendar and concrete requests\<close>

text \<open>
  A calendar holding one event, and a flag that makes every insertion fail. A fetch
  answers with the stored event; a patch replaces the stored repeat rules when the body
  has a \<open>recurrence\<close> property and leaves the event as it is otherwise.
\<close>

definition stringOf :: "'n jsval \<Rightarrow> string" where
  "stringOf v = (case v of JStr s \<Rightarrow> s | _ \<Rightarrow> [])"

definition exampleCalendar ::
  "nat call \<Rightarrow> nat Event \<times> bool \<Rightarrow> (string + nat Event option) \<times> nat Event \<times> bool" where
  "exampleCalendar c w =
     (case c of
        EventsGet cal ev \<Rightarrow> (Inr (Some (fst w)), w)
      | EventsPatch cal ev body su \<Rightarrow>
          (let stored =
             (case body ''recurrence'' of
                Some (JArr rules) \<Rightarrow> (fst w)\<lparr>ev_recurrence := Value (map stringOf rules)\<rparr>
              | _ \<Rightarrow> fst w)
           in (Inr (Some stored), (stored, snd w)))
      | EventsInsert cal body su \<Rightarrow>
          (if snd w then (Inl ''rateLimitExceeded'', w)
           else (Inr (Some ((fst w)\<lparr>ev_id := Value ''E2''\<rparr>)), w)))"

definition exampleParseDate :: "string \<Rightarrow> int option" where
  "exampleParseDate s =
     (if s = ''2024-08-15T10:00:00-07:00'' then Some 1723741200000
      else if s = ''2024-08-15T11:00:00-07:00'' then Some 1723744800000
      else if s = ''2024-09-01T09:00:00-07:00'' then Some 1725206400000
      else if s = ''2024-09-01T14:00:00-07:00'' then Some 1725224400000
      else None)"

definition exampleToISOString :: "int option \<Rightarrow> string + string" where
  "exampleToISOString t =
     (if t = Some 1725210000000 then Inr ''2024-09-01T17:00:00.000Z''
      else if t = Some 1725228000000 then Inr ''2024-09-01T22:00:00.000Z''
      else Inl ''RangeError'')"

definition exampleHelpers :: "(nat, string, nat Event \<times> bool) RecurringEventHelpers" where
  "exampleHelpers =
     \<lparr>calendar = exampleCalendar,
      formatInstanceId = (\<lambda>ev t. Inr (ev @ ''_'' @ t)),
      buildUpdateRequestBody =
        (\<lambda>a. Inr (case summary a of None \<Rightarrow> Map.empty | Some s \<Rightarrow> [''summary'' \<mapsto> JStr s])),
      calculateUntilDate = (\<lambda>t. Inr t),
      updateRecurrenceWithUntil = (\<lambda>rules u. Inr (map (\<lambda>r. r @ '';UNTIL='' @ u) rules)),
      calculateEndTime = calculateEndTime_spec exampleParseDate exampleToISOString,
      cleanEventForDuplication = (\<lambda>ev. Inr (ev_others ev))\<rparr>"

definition weeklySeries :: "nat Event" where
  "weeklySeries =
     \<lparr>ev_id = Value ''E1'', ev_summary = Value ''Standup'',
      ev_recurrence = Value [''RRULE:FREQ=WEEKLY;COUNT=20''], ev_recurringEventId = Undefined,
      ev_startDateTime = Value ''2024-08-15T10:00:00-07:00'',
      ev_endDateTime = Value ''2024-08-15T11:00:00-07:00'',
      ev_others = [''location'' \<mapsto> JStr ''Room 1'']\<rparr>"

definition truncatedSeries :: "nat Event" where
  "truncatedSeries =
     weeklySeries\<lparr>ev_recurrence :=
       Value [''RRULE:FREQ=WEEKLY;COUNT=20;UNTIL=2024-09-01T09:00:00-07:00'']\<rparr>"

definition occurrence :: "nat Event" where
  "occurrence =
     \<lparr>ev_id = Value ''E1_20240815T170000Z'', ev_summary = Value ''Standup'',
      ev_recurrence = Undefined, ev_recurringEventId = Value ''E1'',
      ev_startDateTime = Value ''2024-08-15T10:00:00-07:00'',
      ev_endDateTime = Value ''2024-08-15T11:00:00-07:00'',
      ev_others = Map.empty\<rparr>"

definition futureRequest :: "nat jsobject" where
  "futureRequest =
     [''calendarId'' \<mapsto> JStr ''primary'', ''eventId'' \<mapsto> JStr ''E1'',
      ''timeZone'' \<mapsto> JStr ''America/Los_Angeles'',
      ''modificationScope'' \<mapsto> JStr ''future'',
      ''futureStartDate'' \<mapsto> JStr ''2024-09-01T09:00:00-07:00'',
      ''sendUpdates'' \<mapsto> JStr ''none'']"

definition futureArgs :: "nat UpdateEventArguments" where
  "futureArgs =
     \<lparr>calendarId = ''primary'', eventId = ''E1'', summary = None, description = None,
      start = None, end' = None, timeZone = ''America/Los_Angeles'', attendees = None,
      location = None, colorId = None, reminders = None, recurrence = None,
      modificationScope = ScopeFuture, originalStartTime = None,
      futureStartDate = Some ''2024-09-01T09:00:00-07:00'', sendUpdates = Some SendNone\<rparr>"

definition movedFutureArgs :: "nat UpdateEventArguments" where
  "movedFutureArgs = futureArgs\<lparr>start := Some ''2024-09-01T14:00:00-07:00''\<rparr>"

definition singleRequest :: "nat jsobject" where
  "singleRequest =
     [''calendarId'' \<mapsto> JStr ''primary'', ''eventId'' \<mapsto> JStr ''E1'',
      ''timeZone'' \<mapsto> JStr ''America/Los_Angeles'',
      ''modificationScope'' \<mapsto> JStr ''single'',
      ''originalStartTime'' \<mapsto> JStr ''2024-08-15T10:00:00-07:00'']"

definition singleArgs :: "nat UpdateEventArguments" where
  "singleArgs =
     \<lparr>calendarId = ''primary'', eventId = ''E1'', summary = None, description = None,
      start = None, end' = None, timeZone = ''America/Los_Angeles'', attendees = None,
      location = None, colorId = None, reminders = None, recurrence = None,
      modificationScope = ScopeSingle,
      originalStartTime = Some ''2024-08-15T10:00:00-07:00'',
      futureStartDate = None, sendUpdates = None\<rparr>"

definition staleSingleRequest :: "nat jsobject" where
  "staleSingleRequest =
     [''calendarId'' \<mapsto> JStr ''primary'', ''eventId'' \<mapsto> JStr ''E1'',
      ''timeZone'' \<mapsto> JStr ''America/Los_Angeles'',
      ''modificationScope'' \<mapsto> JStr ''single'',
      ''originalStartTime'' \<mapsto> JStr ''2024-08-15T10:00:00-07:00'',
      ''futureStartDate'' \<mapsto> JStr ''2024-09-01T09:00:00-07:00'']"

definition defaultRequest :: "nat jsobject" where
  "defaultRequest =
     [''calendarId'' \<mapsto> JStr ''primary'', ''eventId'' \<mapsto> JStr ''E1'',
      ''timeZone'' \<mapsto> JStr ''America/Los_Angeles'',
      ''summary'' \<mapsto> JStr ''Daily sync'']"

definition defaultArgs :: "nat UpdateEventArguments" where
  "defaultArgs =
     \<lparr>calendarId = ''primary'', eventId = ''E1'', summary = Some ''Daily sync'',
      description = None, start = None, end' = None, timeZone = ''America/Los_Angeles'',
      attendees = None, location = None, colorId = None, reminders = None, recurrence = None,
      modificationScope = ScopeAll, originalStartTime = None, futureStartDate = None,
      sendUpdates = None\<rparr>"

text \<open>Two readings of the clock: before and after every date of the requests above.\<close>

definition earlyNow :: int where
  "earlyNow = 1720000000000"

definition lateNow :: int where
  "lateNow = 1800000000000"

section \<open>Evaluation rules for the concrete requests\<close>

lemmas iso_defs = isoDateTimeWithTimezone_def dateTimePart_def

lemmas z_defs = z_string_def z_isoString_def z_optional_def z_array_def z_modificationScope_def
  z_sendUpdates_def z_attendee_def RemindersSchema_def ReminderSchema_def z_boolean_def
  z_number_def z_method_def getProp_def

lemmas refine_defs = refinementIssues_def refineOriginalStartTime_def refineFutureStartDate_def
  refineInFuture_def

lemmas request_defs = futureRequest_def futureArgs_def singleRequest_def singleArgs_def
  staleSingleRequest_def defaultRequest_def defaultArgs_def earlyNow_def lateNow_def
  exampleParseDate_def

lemmas step_defs = andThen_def ret_def throw_def helper_def events_def

lemmas example_defs = exampleHelpers_def exampleCalendar_def weeklySeries_def occurrence_def
  truncatedSeries_def calculateEndTime_spec_def exampleParseDate_def exampleToISOString_def
  projectEnd_def estimateDuration_def stringOf_def truncationBody_def newEvent_def
  dateTimeObject_def js_or_def movedFutureArgs_def Let_def

lemmas handler_defs = updateEventWithScope_def scopeCheck_def detectEventType_def classify_def
  updateSingleInstance_def updateAllInstances_def updateFutureInstances_def

section \<open>Validation\<close>

lemma matchSeq_nonempty: "matchSeq (p # ps) s \<Longrightarrow> s \<noteq> []"
  by (cases s) simp_all

lemma iso_nonempty: "isoDateTimeWithTimezone s \<Longrightarrow> s \<noteq> []"
  unfolding isoDateTimeWithTimezone_def dateTimePart_def
  by (auto dest: matchSeq_nonempty)

text \<open>An optional date-time property accepted by the object schema is either missing or
  a non-empty string, so its truthiness in the refinements is its presence.\<close>

lemma z_optional_isoString:
  "z_optional z_isoString v = Some r \<Longrightarrow>
     (r = None \<and> v = JUndefined) \<or> (\<exists>s. r = Some s \<and> v = JStr s \<and> s \<noteq> [])"
  unfolding z_optional_def z_isoString_def
  by (cases v) (auto split: if_splits dest: iso_nonempty)

lemma UpdateEventObject_fields:
  assumes "UpdateEventObject (JObj obj) = Some d"
  shows "z_optional z_isoString (getProp obj ''futureStartDate'') = Some (futureStartDate d)"
    and "z_optional z_isoString (getProp obj ''originalStartTime'') = Some (originalStartTime d)"
    and "z_optional z_isoString (getProp obj ''start'') = Some (start d)"
    and "z_optional z_isoString (getProp obj ''end'') = Some (end' d)"
    and "z_modificationScope (getProp obj ''modificationScope'') = Some (modificationScope d)"
    and "z_string (getProp obj ''eventId'') = Some (eventId d)"
    and "z_string (getProp obj ''calendarId'') = Some (calendarId d)"
  using assms unfolding UpdateEventObject_def
  by (auto split: bind_splits)

lemma parse_fails_iff:
  "UpdateEventObject v = Some d \<Longrightarrow>
   isl (UpdateEventArgumentsSchema_parse parseDate now v) \<longleftrightarrow>
     \<not> (refineOriginalStartTime d \<and> refineFutureStartDate d \<and> refineInFuture parseDate now d)"
  by (simp add: UpdateEventArgumentsSchema_parse_def refinementIssues_def)

lemma parse_accepts:
  "UpdateEventArgumentsSchema_parse parseDate now v = Inr d \<Longrightarrow>
   UpdateEventObject v = Some d \<and> refineOriginalStartTime d \<and> refineFutureStartDate d \<and>
   refineInFuture parseDate now d"
  by (auto simp: UpdateEventArgumentsSchema_parse_def refinementIssues_def
      split: option.splits if_splits)

lemma futureRequest_object: "UpdateEventObject (JObj futureRequest) = Some futureArgs"
  by (simp add: request_defs UpdateEventObject_def z_defs iso_defs)

lemma singleRequest_object: "UpdateEventObject (JObj singleRequest) = Some singleArgs"
  by (simp add: request_defs UpdateEventObject_def z_defs iso_defs)

lemma staleSingleRequest_object:
  "UpdateEventObject (JObj staleSingleRequest) =
     Some (singleArgs\<lparr>futureStartDate := Some ''2024-09-01T09:00:00-07:00''\<rparr>)"
  by (simp add: request_defs UpdateEventObject_def z_defs iso_defs)

lemma defaultRequest_object: "UpdateEventObject (JObj defaultRequest) = Some defaultArgs"
  by (simp add: request_defs UpdateEventObject_def z_defs iso_defs)

text \<open>
  C5. A request whose properties all pass the object schema and whose scope is \<open>future\<close>
  fails validation if and only if \<open>futureStartDate\<close> is missing or is not strictly later
  than the clock read at validation (an unreadable date is not later than anything).
\<close>

theorem future_scope_validation:
  assumes "UpdateEventObject (JObj obj) = Some d"
    and "modificationScope d = ScopeFuture"
  shows "isl (UpdateEventArgumentsSchema_parse parseDate now (JObj obj)) \<longleftrightarrow>
           getProp obj ''futureStartDate'' = JUndefined \<or>
           (\<exists>s. getProp obj ''futureStartDate'' = JStr s \<and> \<not> dateGreater (parseDate s) now)"
proof -
  from UpdateEventObject_fields(1)[OF assms(1)]
  have "(futureStartDate d = None \<and> getProp obj ''futureStartDate'' = JUndefined) \<or>
        (\<exists>s. futureStartDate d = Some s \<and> getProp obj ''futureStartDate'' = JStr s \<and> s \<noteq> [])"
    by (rule z_optional_isoString)
  then show ?thesis
    using assms(2) by (auto simp: parse_fails_iff[OF assms(1)] refine_defs)
qed

theorem future_scope_validation_witness:
  "UpdateEventObject (JObj futureRequest) = Some futureArgs \<and>
   modificationScope futureArgs = ScopeFuture \<and>
   isl (UpdateEventArgumentsSchema_parse exampleParseDate lateNow (JObj futureRequest)) \<and>
   \<not> isl (UpdateEventArgumentsSchema_parse exampleParseDate earlyNow (JObj futureRequest))"
proof -
  have sc: "modificationScope futureArgs = ScopeFuture"
    by (simp add: futureArgs_def)
  note inst = future_scope_validation[OF futureRequest_object sc]
  show ?thesis
    using futureRequest_object sc inst[of exampleParseDate lateNow]
      inst[of exampleParseDate earlyNow]
    by (simp add: request_defs getProp_def)
qed

text \<open>
  C6. A request whose properties all pass the object schema, whose scope is \<open>single\<close> and
  whose \<open>futureStartDate\<close>, when it has one, lies in the future (the constraint the schema
  puts on that property whatever the scope) fails validation if and only if
  \<open>originalStartTime\<close> is missing.
\<close>

theorem single_scope_validation:
  assumes "UpdateEventObject (JObj obj) = Some d"
    and "modificationScope d = ScopeSingle"
    and "\<forall>s. getProp obj ''futureStartDate'' = JStr s \<longrightarrow> dateGreater (parseDate s) now"
  shows "isl (UpdateEventArgumentsSchema_parse parseDate now (JObj obj)) \<longleftrightarrow>
           getProp obj ''originalStartTime'' = JUndefined"
proof -
  from UpdateEventObject_fields(1)[OF assms(1)]
  have f: "(futureStartDate d = None \<and> getProp obj ''futureStartDate'' = JUndefined) \<or>
        (\<exists>s. futureStartDate d = Some s \<and> getProp obj ''futureStartDate'' = JStr s \<and> s \<noteq> [])"
    by (rule z_optional_isoString)
  from UpdateEventObject_fields(2)[OF assms(1)]
  have "(originalStartTime d = None \<and> getProp obj ''originalStartTime'' = JUndefined) \<or>
        (\<exists>s. originalStartTime d = Some s \<and> getProp obj ''originalStartTime'' = JStr s \<and>
             s \<noteq> [])"
    by (rule z_optional_isoString)
  then show ?thesis
    using assms(2,3) f by (auto simp: parse_fails_iff[OF assms(1)] refine_defs)
qed

theorem single_scope_validation_witness:
  "UpdateEventObject (JObj staleSingleRequest) =
     Some (singleArgs\<lparr>futureStartDate := Some ''2024-09-01T09:00:00-07:00''\<rparr>) \<and>
   getProp staleSingleRequest ''futureStartDate'' = JStr ''2024-09-01T09:00:00-07:00'' \<and>
   dateGreater (exampleParseDate ''2024-09-01T09:00:00-07:00'') earlyNow \<and>
   getProp staleSingleRequest ''originalStartTime'' \<noteq> JUndefined \<and>
   \<not> isl (UpdateEventArgumentsSchema_parse exampleParseDate earlyNow (JObj staleSingleRequest))"
proof -
  let ?d = "singleArgs\<lparr>futureStartDate := Some ''2024-09-01T09:00:00-07:00''\<rparr>"
  have sc: "modificationScope ?d = ScopeSingle"
    by (simp add: singleArgs_def)
  note inst = single_scope_validation[OF staleSingleRequest_object sc,
      of exampleParseDate earlyNow]
  show ?thesis
    using staleSingleRequest_object inst by (simp add: request_defs getProp_def)
qed

text \<open>
  C9. The bound on \<open>futureStartDate\<close> does not look at the scope: a request that carries
  a \<open>futureStartDate\<close> not strictly later than the clock fails validation, whatever its
  \<open>modificationScope\<close> and its other properties are.
\<close>

theorem future_bound_any_scope:
  assumes "getProp obj ''futureStartDate'' = JStr s"
    and "\<not> dateGreater (parseDate s) now"
  shows "isl (UpdateEventArgumentsSchema_parse parseDate now (JObj obj))"
proof (cases "UpdateEventObject (JObj obj)")
  case None
  then show ?thesis by (simp add: UpdateEventArgumentsSchema_parse_def)
next
  case (Some d)
  from UpdateEventObject_fields(1)[OF Some]
  have "(futureStartDate d = None \<and> getProp obj ''futureStartDate'' = JUndefined) \<or>
        (\<exists>s. futureStartDate d = Some s \<and> getProp obj ''futureStartDate'' = JStr s \<and> s \<noteq> [])"
    by (rule z_optional_isoString)
  with assms show ?thesis
    by (auto simp: parse_fails_iff[OF Some] refine_defs)
qed

theorem future_bound_any_scope_witness:
  "getProp staleSingleRequest ''modificationScope'' = JStr ''single'' \<and>
   getProp staleSingleRequest ''futureStartDate'' = JStr ''2024-09-01T09:00:00-07:00'' \<and>
   \<not> dateGreater (exampleParseDate ''2024-09-01T09:00:00-07:00'') lateNow \<and>
   isl (UpdateEventArgumentsSchema_parse exampleParseDate lateNow (JObj staleSingleRequest))"
  using future_bound_any_scope[of staleSingleRequest "''2024-09-01T09:00:00-07:00''"
      exampleParseDate lateNow]
  by (simp add: request_defs getProp_def)

section \<open>Runs of the handler\<close>

lemma events_run:
  "calendar h c w = (r, w') \<Longrightarrow>
   events h c (w, log) =
     ((case r of Inl x \<Rightarrow> Inl (Other (External x)) | Inr d \<Rightarrow> Inr d), (w', log @ [c]))"
  by (simp add: events_def split: sum.splits)

lemma scopeCheck_run:
  assumes "calendar h (EventsGet (calendarId a) (eventId a)) w = (Inr (Some ev), w1)"
  shows "scopeCheck h a (w, log) =
     ((if modificationScope a \<noteq> ScopeAll \<and> classify ev \<noteq> recurring
       then Inl (RecurringEventError nonRecurringScopeMessage NON_RECURRING_SCOPE)
       else Inr ()),
      (w1, log @ [EventsGet (calendarId a) (eventId a)]))"
  by (simp add: scopeCheck_def detectEventType_def andThen_def events_run[OF assms]
      ret_def throw_def)

subsection \<open>What a step can throw\<close>

lemma raises_ret: "raises Q (ret a)"
  by (simp add: raises_def ret_def)

lemma raises_throw: "Q e \<Longrightarrow> raises Q (throw e)"
  by (simp add: raises_def throw_def)

lemma raises_helper: "(\<And>x. Q (Other x)) \<Longrightarrow> raises Q (helper r)"
  by (cases r) (simp_all add: helper_def raises_ret raises_throw)

lemma raises_events: "(\<And>x. Q (Other x)) \<Longrightarrow> raises Q (events h c)"
  by (auto simp: raises_def events_def split: prod.splits sum.splits)

lemma raises_andThen:
  assumes "raises Q m" and "\<And>a. raises Q (f a)"
  shows "raises Q (andThen m f)"
  using assms unfolding raises_def andThen_def
  by (auto split: prod.splits sum.splits) blast+

lemmas raises_intros = raises_ret raises_throw raises_helper raises_events raises_andThen

lemma raisesD: "raises Q m \<Longrightarrow> fst (m s) = Inl e \<Longrightarrow> Q e"
  unfolding raises_def by (metis prod.collapse)

lemma raises_single:
  assumes "\<And>x. Q (Other x)"
    and "\<not> truthy (originalStartTime a) \<Longrightarrow>
           Q (RecurringEventError ''originalStartTime is required for single instance updates''
                MISSING_ORIGINAL_TIME)"
  shows "raises Q (updateSingleInstance h a)"
  unfolding updateSingleInstance_def using assms
  by (auto intro!: raises_intros split: option.splits)

lemma raises_all:
  assumes "\<And>x. Q (Other x)"
  shows "raises Q (updateAllInstances h a)"
  unfolding updateAllInstances_def using assms
  by (auto intro!: raises_intros split: option.splits)

lemma raises_future:
  assumes "\<And>x. Q (Other x)"
    and "\<not> truthy (futureStartDate a) \<Longrightarrow>
           Q (RecurringEventError ''futureStartDate is required for future instance updates''
                MISSING_FUTURE_DATE)"
  shows "raises Q (updateFutureInstances h a)"
  unfolding updateFutureInstances_def using assms
  by (auto intro!: raises_intros split: option.splits nullable.splits)

lemma branch_not_scope_error:
  "fst ((case modificationScope a of
          ScopeSingle \<Rightarrow> updateSingleInstance h a s
        | ScopeAll \<Rightarrow> updateAllInstances h a s
        | ScopeFuture \<Rightarrow> updateFutureInstances h a s)) \<noteq>
   Inl (RecurringEventError m NON_RECURRING_SCOPE)"
proof -
  let ?Q = "\<lambda>e. e \<noteq> RecurringEventError m NON_RECURRING_SCOPE"
  have "raises ?Q (updateSingleInstance h a)" by (rule raises_single) simp_all
  moreover have "raises ?Q (updateAllInstances h a)" by (rule raises_all) simp_all
  moreover have "raises ?Q (updateFutureInstances h a)" by (rule raises_future) simp_all
  ultimately show ?thesis
    by (cases "modificationScope a") (auto dest: raisesD)
qed

text \<open>
  C1, as the code has it. Once the target has been fetched and classified, the resolver
  rejects the request with the scope error if and only if the scope is not \<open>all\<close> and the
  classified type is not \<open>recurring\<close>: an \<open>instance\<close> is rejected like a standalone event.
\<close>

theorem scope_rejection:
  assumes "calendar h (EventsGet (calendarId a) (eventId a)) w = (Inr (Some ev), w1)"
  shows "fst (updateEventWithScope hg h a (w, log)) =
           Inl (RecurringEventError nonRecurringScopeMessage NON_RECURRING_SCOPE) \<longleftrightarrow>
         modificationScope a \<noteq> ScopeAll \<and> classify ev \<noteq> recurring"
proof (cases "modificationScope a \<noteq> ScopeAll \<and> classify ev \<noteq> recurring")
  case True
  then show ?thesis
    by (simp add: updateEventWithScope_def scopeCheck_run[OF assms])
next
  case False
  let ?s = "(w1, log @ [EventsGet (calendarId a) (eventId a)])"
  from False have "updateEventWithScope hg h a (w, log) =
      (case modificationScope a of
          ScopeSingle \<Rightarrow> updateSingleInstance h a ?s
        | ScopeAll \<Rightarrow> updateAllInstances h a ?s
        | ScopeFuture \<Rightarrow> updateFutureInstances h a ?s)"
    by (auto simp add: updateEventWithScope_def scopeCheck_run[OF assms])
  with False show ?thesis
    using branch_not_scope_error[where a=a and h=h and s="?s" and m=nonRecurringScopeMessage]
    by auto
qed

theorem scope_rejection_witness:
  "calendar exampleHelpers (EventsGet (calendarId singleArgs) (eventId singleArgs))
     (weeklySeries, False) = (Inr (Some weeklySeries), (weeklySeries, False)) \<and>
   modificationScope singleArgs = ScopeSingle \<and> classify weeklySeries = recurring \<and>
   fst (updateEventWithScope id exampleHelpers singleArgs ((weeklySeries, False), [])) \<noteq>
     Inl (RecurringEventError nonRecurringScopeMessage NON_RECURRING_SCOPE)"
proof -
  have fetch: "calendar exampleHelpers (EventsGet (calendarId singleArgs) (eventId singleArgs))
     (weeklySeries, False) = (Inr (Some weeklySeries), (weeklySeries, False))"
    by (simp add: exampleHelpers_def exampleCalendar_def)
  have cl: "classify weeklySeries = recurring"
    by (simp add: classify_def weeklySeries_def)
  show ?thesis
    using fetch cl scope_rejection[OF fetch, of id "[]"] by (simp add: singleArgs_def)
qed

text \<open>
  C1, as the claim states it, fails: a \<open>single\<close>-scope request whose target classifies as
  \<open>instance\<close> is rejected with the scope error.
\<close>

theorem instance_rejected_counterexample:
  "modificationScope singleArgs = ScopeSingle \<and> classify occurrence = instance' \<and>
   fst (updateEventWithScope id exampleHelpers singleArgs ((occurrence, False), [])) =
     Inl (RecurringEventError nonRecurringScopeMessage NON_RECURRING_SCOPE)"
  by (simp add: handler_defs step_defs example_defs singleArgs_def)

subsection \<open>What a step appends to the log\<close>

lemma issues_ret: "issues P (ret a)"
  by (simp add: issues_def ret_def)

lemma issues_throw: "issues P (throw e)"
  by (simp add: issues_def throw_def)

lemma issues_helper: "issues P (helper r)"
  by (cases r) (simp_all add: helper_def issues_ret issues_throw)

lemma issues_events: "P c \<Longrightarrow> issues P (events h c)"
  by (auto simp: issues_def events_def split: prod.splits sum.splits)

lemma issues_andThen:
  assumes "issues P m" and "\<And>a. issues P (f a)"
  shows "issues P (andThen m f)"
  unfolding issues_def
proof (intro allI impI)
  fix w log r w' log'
  assume run: "andThen m f (w, log) = (r, (w', log'))"
  obtain r1 w1 log1 where m: "m (w, log) = (r1, (w1, log1))"
    by (metis prod.exhaust)
  from assms(1) m obtain new1 where n1: "log1 = log @ new1" "list_all P new1"
    unfolding issues_def by blast
  show "\<exists>new. log' = log @ new \<and> list_all P new"
  proof (cases r1)
    case (Inl e)
    with run m have "log' = log1" by (simp add: andThen_def)
    with n1 show ?thesis by blast
  next
    case (Inr a)
    with run m have "f a (w1, log1) = (r, (w', log'))" by (simp add: andThen_def)
    with assms(2) obtain new2 where "log' = log1 @ new2" "list_all P new2"
      unfolding issues_def by blast
    with n1 have "log' = log @ (new1 @ new2)" "list_all P (new1 @ new2)" by simp_all
    then show ?thesis by blast
  qed
qed

lemmas issues_intros = issues_ret issues_throw issues_helper issues_events issues_andThen

lemma issuesD:
  assumes "issues P m" and "c \<in> set (snd (snd (m (w, log))))"
  shows "c \<in> set log \<or> P c"
proof -
  obtain r w' log' where run: "m (w, log) = (r, (w', log'))"
    by (metis prod.exhaust)
  with assms(1) obtain new where "log' = log @ new" "list_all P new"
    unfolding issues_def by blast
  with assms(2) run show ?thesis by (auto simp: list_all_iff)
qed

lemma issues_single:
  "issues (\<lambda>c. mutating c \<longrightarrow> carries (sendUpdates a) c) (updateSingleInstance h a)"
  unfolding updateSingleInstance_def
  by (auto intro!: issues_intros simp: carries_def mutating_def split: option.splits)

lemma issues_all:
  "issues (\<lambda>c. mutating c \<longrightarrow> carries (sendUpdates a) c) (updateAllInstances h a)"
  unfolding updateAllInstances_def
  by (auto intro!: issues_intros simp: carries_def mutating_def split: option.splits)

lemma issues_future:
  "issues (\<lambda>c. mutating c \<longrightarrow> carries (sendUpdates a) c) (updateFutureInstances h a)"
  unfolding updateFutureInstances_def
  by (auto intro!: issues_intros simp: carries_def mutating_def split: option.splits nullable.splits)

lemma issues_scopeCheck:
  "issues (\<lambda>c. mutating c \<longrightarrow> carries (sendUpdates a) c) (scopeCheck h a)"
  unfolding scopeCheck_def detectEventType_def
  by (auto intro!: issues_intros simp: carries_def mutating_def split: option.splits)

lemma issues_same_state:
  assumes "issues P m" and "\<And>s. snd (m' s) = snd (m s)"
  shows "issues P m'"
  unfolding issues_def
proof (intro allI impI)
  fix w log r w' log'
  assume "m' (w, log) = (r, (w', log'))"
  then have "snd (m (w, log)) = (w', log')"
    using assms(2)[of "(w, log)"] by simp
  then have "m (w, log) = (fst (m (w, log)), (w', log'))"
    by (metis prod.collapse)
  with assms(1) show "\<exists>new. log' = log @ new \<and> list_all P new"
    unfolding issues_def by blast
qed

lemma updateEventWithScope_state:
  "snd (updateEventWithScope hg h a s) =
   snd (andThen (scopeCheck h a) (\<lambda>u s'. case modificationScope a of
             ScopeSingle \<Rightarrow> updateSingleInstance h a s'
           | ScopeAll \<Rightarrow> updateAllInstances h a s'
           | ScopeFuture \<Rightarrow> updateFutureInstances h a s') s)"
  by (simp add: updateEventWithScope_def andThen_def split: prod.splits sum.splits thrown.splits)

lemma issues_updateEventWithScope:
  "issues (\<lambda>c. mutating c \<longrightarrow> carries (sendUpdates a) c) (updateEventWithScope hg h a)"
proof -
  let ?P = "\<lambda>c. mutating c \<longrightarrow> carries (sendUpdates a) c"
  have br: "issues ?P (\<lambda>s. case modificationScope a of
             ScopeSingle \<Rightarrow> updateSingleInstance h a s
           | ScopeAll \<Rightarrow> updateAllInstances h a s
           | ScopeFuture \<Rightarrow> updateFutureInstances h a s)"
    by (cases "modificationScope a") (simp_all add: issues_single issues_all issues_future)
  have "issues ?P (andThen (scopeCheck h a) (\<lambda>u s. case modificationScope a of
             ScopeSingle \<Rightarrow> updateSingleInstance h a s
           | ScopeAll \<Rightarrow> updateAllInstances h a s
           | ScopeFuture \<Rightarrow> updateFutureInstances h a s))"
    by (rule issues_andThen[OF issues_scopeCheck]) (rule br)
  then show ?thesis
    by (rule issues_same_state) (rule updateEventWithScope_state)
qed

text \<open>
  C7, as the code has it. In every scope, each call of the operation that changes the
  calendar (the patch of \<open>single\<close> and \<open>all\<close>, the truncating patch and the insert of
  \<open>future\<close>) carries the caller's \<open>sendUpdates\<close> unmodified; the fetches are issued
  without it.
\<close>

theorem sendUpdates_on_mutations:
  assumes "c \<in> set (snd (snd (updateEventWithScope hg h a (w, []))))"
    and "mutating c"
  shows "carries (sendUpdates a) c"
  using issuesD[OF issues_updateEventWithScope assms(1)] assms(2) by simp


lemma raises_scopeCheck:
  assumes "\<And>x. Q (Other x)"
    and "Q (RecurringEventError nonRecurringScopeMessage NON_RECURRING_SCOPE)"
  shows "raises Q (scopeCheck h a)"
  unfolding scopeCheck_def detectEventType_def using assms
  by (auto intro!: raises_intros split: option.splits)

lemma raises_updateEventWithScope:
  assumes other: "\<And>x. Q (Other x)"
    and scope: "Q (RecurringEventError nonRecurringScopeMessage NON_RECURRING_SCOPE)"
    and single: "modificationScope a = ScopeSingle \<Longrightarrow> \<not> truthy (originalStartTime a) \<Longrightarrow>
           Q (RecurringEventError ''originalStartTime is required for single instance updates''
                MISSING_ORIGINAL_TIME)"
    and future: "modificationScope a = ScopeFuture \<Longrightarrow> \<not> truthy (futureStartDate a) \<Longrightarrow>
           Q (RecurringEventError ''futureStartDate is required for future instance updates''
                MISSING_FUTURE_DATE)"
  shows "raises Q (updateEventWithScope hg h a)"
  unfolding raises_def
proof (intro allI impI)
  fix s e s'
  assume run: "updateEventWithScope hg h a s = (Inl e, s')"
  obtain r1 s1 where chk: "scopeCheck h a s = (r1, s1)"
    by (metis prod.exhaust)
  show "Q e"
  proof (cases r1)
    case (Inl e1)
    with chk have "Q e1"
      using raisesD[OF raises_scopeCheck[OF other scope], of h a s e1] by simp
    with run chk Inl other show ?thesis
      by (cases e1) (auto simp: updateEventWithScope_def)
  next
    case (Inr u)
    show ?thesis
    proof (cases "modificationScope a")
      case ScopeSingle
      with run chk Inr have "fst (updateSingleInstance h a s1) = Inl e"
        by (simp add: updateEventWithScope_def)
      then show ?thesis
        using raisesD[OF raises_single[of Q a h], of s1 e] other single[OF ScopeSingle] by blast
    next
      case ScopeAll
      with run chk Inr have "fst (updateAllInstances h a s1) = Inl e"
        by (simp add: updateEventWithScope_def)
      then show ?thesis
        using raisesD[OF raises_all[of Q h a], of s1 e] other by blast
    next
      case ScopeFuture
      with run chk Inr have "fst (updateFutureInstances h a s1) = Inl e"
        by (simp add: updateEventWithScope_def)
      then show ?thesis
        using raisesD[OF raises_future[of Q a h], of s1 e] other future[OF ScopeFuture] by blast
    qed
  qed
qed

text \<open>
  C10. On arguments accepted by the schema, a \<open>single\<close> scope comes with a truthy
  \<open>originalStartTime\<close> and a \<open>future\<close> scope with a truthy \<open>futureStartDate\<close>, so the two
  defensive branches are not taken: the update never ends with the error of a missing
  \<open>originalStartTime\<close> or of a missing \<open>futureStartDate\<close>.
\<close>

theorem defensive_branches_unreachable:
  assumes "UpdateEventArgumentsSchema_parse parseDate now v = Inr d"
  shows "(modificationScope d = ScopeSingle \<longrightarrow> truthy (originalStartTime d)) \<and>
         (modificationScope d = ScopeFuture \<longrightarrow> truthy (futureStartDate d)) \<and>
         fst (updateEventWithScope hg h d s) \<noteq> Inl (RecurringEventError m MISSING_ORIGINAL_TIME) \<and>
         fst (updateEventWithScope hg h d s) \<noteq> Inl (RecurringEventError m MISSING_FUTURE_DATE)"
proof -
  from parse_accepts[OF assms]
  have t1: "modificationScope d = ScopeSingle \<longrightarrow> truthy (originalStartTime d)"
    and t2: "modificationScope d = ScopeFuture \<longrightarrow> truthy (futureStartDate d)"
    by (auto simp: refineOriginalStartTime_def refineFutureStartDate_def split: if_splits)
  let ?Q = "\<lambda>e. e \<noteq> RecurringEventError m MISSING_ORIGINAL_TIME \<and>
                 e \<noteq> RecurringEventError m MISSING_FUTURE_DATE"
  have "raises ?Q (updateEventWithScope hg h d)"
    using t1 t2 by (intro raises_updateEventWithScope) simp_all
  then have "\<And>e. fst (updateEventWithScope hg h d s) = Inl e \<Longrightarrow> ?Q e"
    by (rule raisesD)
  with t1 t2 show ?thesis by blast
qed

theorem defensive_branches_unreachable_witness:
  "UpdateEventArgumentsSchema_parse exampleParseDate earlyNow (JObj singleRequest) = Inr singleArgs \<and>
   modificationScope singleArgs = ScopeSingle \<and> truthy (originalStartTime singleArgs) \<and>
   fst (updateEventWithScope id exampleHelpers singleArgs ((weeklySeries, False), [])) \<noteq>
     Inl (RecurringEventError ''originalStartTime is required for single instance updates''
            MISSING_ORIGINAL_TIME)"
proof -
  have acc: "UpdateEventArgumentsSchema_parse exampleParseDate earlyNow (JObj singleRequest) =
      Inr singleArgs"
    by (simp add: UpdateEventArgumentsSchema_parse_def singleRequest_object refine_defs
        singleArgs_def)
  show ?thesis
    using acc defensive_branches_unreachable[OF acc, of id exampleHelpers
        "((weeklySeries, False), [])"
        "''originalStartTime is required for single instance updates''"]
    by (simp add: singleArgs_def)
qed

lemma truthyD: "truthy x \<Longrightarrow> \<exists>s. x = Some s"
  by (cases x) simp_all

lemma helper_run: "r = Inr v \<Longrightarrow> helper r s = (Inr v, s)"
  by (simp add: helper_def ret_def)

text \<open>
  C4. In the \<open>future\<close> split, a patch is addressed at the event as given and its request
  body is \<open>{recurrence: updatedRecurrence}\<close>: under \<open>recurrence\<close> it holds the list of the
  rules of the fetched event rewritten up to the cutoff, and \<open>recurrence\<close> is its only
  property, so a partial update that replaces the properties present in the body leaves
  every other property of the stored event as it was.
\<close>

theorem truncation_patch_body:
  assumes "calendar h (EventsGet (calendarId a) (eventId a)) w = (Inr (Some originalEvent), w1)"
    and "EventsPatch cal ev body su \<in> set (snd (snd (updateFutureInstances h a (w, []))))"
  shows "cal = calendarId a \<and> ev = eventId a \<and>
         (\<exists>originalRecurrence untilDate updatedRecurrence.
            ev_recurrence originalEvent = Value originalRecurrence \<and>
            calculateUntilDate h (the (futureStartDate a)) = Inr untilDate \<and>
            updateRecurrenceWithUntil h originalRecurrence untilDate = Inr updatedRecurrence \<and>
            body = truncationBody updatedRecurrence \<and>
            body ''recurrence'' = Some (JArr (map JStr updatedRecurrence))) \<and>
         dom body = {''recurrence''} \<and>
         (\<forall>stored k. k \<noteq> ''recurrence'' \<longrightarrow> (stored ++ body) k = stored k)"
  using assms unfolding updateFutureInstances_def
  by (auto simp: step_defs truncationBody_def map_add_def
      split: if_splits option.splits nullable.splits sum.splits prod.splits)

text \<open>
  C2, as the code has it. The event inserted by a \<open>future\<close>-scope update starts at the
  caller's \<open>start\<close> when one is given and at \<open>futureStartDate\<close> otherwise; it ends at the
  caller's \<open>end\<close> when one is given, and otherwise at the projected end: that new start
  plus the fetched event's duration (its end minus its start).
\<close>

theorem inserted_event_bounds:
  assumes "calculateEndTime h = calculateEndTime_spec parseDate toISOString"
    and "calendar h (EventsGet (calendarId a) (eventId a)) w = (Inr (Some originalEvent), w1)"
    and "EventsInsert cal body su \<in> set (snd (snd (updateFutureInstances h a (w, []))))"
  shows "\<exists>newStart.
           (if truthy (start a) then start a else futureStartDate a) = Some newStart \<and>
           body ''start'' = Some (dateTimeObject (Some newStart) (timeZone a)) \<and>
           (truthy (end' a) \<longrightarrow> body ''end'' = Some (dateTimeObject (end' a) (timeZone a))) \<and>
           (\<not> truthy (end' a) \<longrightarrow>
              (\<exists>projected.
                 toISOString (projectEnd (parseDate newStart)
                                (estimateDuration parseDate originalEvent)) = Inr projected \<and>
                 body ''end'' = Some (dateTimeObject (Some projected) (timeZone a))))"
  using assms(2,3) unfolding updateFutureInstances_def assms(1) calculateEndTime_spec_def
  by (auto simp: step_defs newEvent_def js_or_def dest!: truthyD
      split: if_splits option.splits nullable.splits sum.splits prod.splits)

text \<open>
  C3. When the truncating patch of a \<open>future\<close>-scope update has been answered and the
  insertion then fails (the service throws, or answers without data), the caller gets the
  error, the insertion is the last call of the operation, and the service is left in the
  state the failed insertion produced: nothing undoes the truncation.
\<close>

theorem failed_insertion_not_rolled_back:
  assumes scope: "modificationScope a = ScopeFuture"
    and future: "futureStartDate a = Some futureStart" "futureStart \<noteq> []"
    and detect: "calendar h (EventsGet (calendarId a) (eventId a)) w0 = (Inr (Some classified), w1)"
      "classify classified = recurring"
    and fetch: "calendar h (EventsGet (calendarId a) (eventId a)) w1 = (Inr (Some originalEvent), w2)"
      "ev_recurrence originalEvent = Value originalRecurrence"
    and until: "calculateUntilDate h futureStart = Inr untilDate"
      "updateRecurrenceWithUntil h originalRecurrence untilDate = Inr updatedRecurrence"
    and patch: "calendar h (EventsPatch (calendarId a) (eventId a)
                  (truncationBody updatedRecurrence) (sendUpdates a)) w2 = (Inr patched, w3)"
    and build: "buildUpdateRequestBody h a = Inr requestBody"
    and endTime: "(if truthy (end' a) then Inr (the (end' a))
                   else calculateEndTime h (the (js_or (start a) (futureStartDate a)))
                          originalEvent) = Inr endTime"
    and clean: "cleanEventForDuplication h originalEvent = Inr cleaned"
    and insert: "calendar h (EventsInsert (calendarId a)
                   (newEvent cleaned requestBody a (Some endTime)) (sendUpdates a)) w3 = (r, w4)"
      "\<forall>created. r \<noteq> Inr (Some created)"
  shows "updateEventWithScope hg h a (w0, []) =
           (Inl (Other (case r of Inl x \<Rightarrow> External x
                        | Inr data \<Rightarrow> Error ''Failed to create new recurring event'')),
            (w4, [EventsGet (calendarId a) (eventId a),
                  EventsGet (calendarId a) (eventId a),
                  EventsPatch (calendarId a) (eventId a) (truncationBody updatedRecurrence)
                    (sendUpdates a),
                  EventsInsert (calendarId a) (newEvent cleaned requestBody a (Some endTime))
                    (sendUpdates a)]))"
    (is "_ = ?rhs")
proof -
  have chk: "scopeCheck h a (w0, []) = (Inr (), (w1, [EventsGet (calendarId a) (eventId a)]))"
    using scopeCheck_run[OF detect(1), of "[]"] detect(2) by simp
  have et: "(if truthy (end' a) then ret (end' a)
             else andThen (helper (calculateEndTime h (the (js_or (start a) (futureStartDate a)))
                                     originalEvent)) (\<lambda>t. ret (Some t))) s = (Inr (Some endTime), s)" for s :: "'c \<times> 'a call list"
    using endTime by (cases "end' a") (auto simp: step_defs split: if_splits)
  have "updateFutureInstances h a (w1, [EventsGet (calendarId a) (eventId a)]) = ?rhs"
    using future fetch until patch build clean insert et
    unfolding updateFutureInstances_def
    by (cases r) (auto simp: andThen_def events_run helper_run js_or_def throw_def ret_def
        split: option.splits)
  with chk scope show ?thesis
    by (simp add: updateEventWithScope_def)
qed

lemma z_string_JStr: "z_string v = Some s \<Longrightarrow> v = JStr s"
  by (cases v) (simp_all add: z_string_def)

text \<open>
  C8. A request without \<open>modificationScope\<close> that passes validation is handled with scope
  \<open>all\<close>: once the target has been fetched, the operation issues one patch, addressed at
  the event identifier as the caller gave it, whatever the type of the event, and nothing
  else.
\<close>

theorem omitted_scope_is_all:
  assumes "getProp obj ''modificationScope'' = JUndefined"
    and "UpdateEventArgumentsSchema_parse parseDate now (JObj obj) = Inr d"
    and "calendar h (EventsGet (calendarId d) (eventId d)) w = (Inr (Some ev), w1)"
    and "buildUpdateRequestBody h d = Inr requestBody"
  shows "modificationScope d = ScopeAll \<and>
         getProp obj ''eventId'' = JStr (eventId d) \<and>
         snd (snd (runTool parseDate now hg h (JObj obj) (w, []))) =
           [EventsGet (calendarId d) (eventId d),
            EventsPatch (calendarId d) (eventId d) requestBody (sendUpdates d)]"
proof -
  from parse_accepts[OF assms(2)] have obj: "UpdateEventObject (JObj obj) = Some d"
    by simp
  from UpdateEventObject_fields(5)[OF obj] assms(1) have all: "modificationScope d = ScopeAll"
    by (simp add: z_modificationScope_def)
  from UpdateEventObject_fields(6)[OF obj] have eid: "getProp obj ''eventId'' = JStr (eventId d)"
    by (rule z_string_JStr)
  have chk: "scopeCheck h d (w, []) = (Inr (), (w1, [EventsGet (calendarId d) (eventId d)]))"
    using scopeCheck_run[OF assms(3), of "[]"] all by simp
  obtain r w2 where p: "calendar h (EventsPatch (calendarId d) (eventId d) requestBody
      (sendUpdates d)) w1 = (r, w2)"
    by (metis prod.exhaust)
  have "snd (snd (updateAllInstances h d (w1, [EventsGet (calendarId d) (eventId d)]))) =
      [EventsGet (calendarId d) (eventId d),
       EventsPatch (calendarId d) (eventId d) requestBody (sendUpdates d)]"
    using assms(4) p unfolding updateAllInstances_def
    by (cases r) (auto simp: andThen_def events_run helper_run throw_def ret_def
        split: option.splits)
  with chk all have "snd (snd (updateEventWithScope hg h d (w, []))) =
      [EventsGet (calendarId d) (eventId d),
       EventsPatch (calendarId d) (eventId d) requestBody (sendUpdates d)]"
    by (simp add: updateEventWithScope_def)
  then have "snd (snd (runTool parseDate now hg h (JObj obj) (w, []))) =
      [EventsGet (calendarId d) (eventId d),
       EventsPatch (calendarId d) (eventId d) requestBody (sendUpdates d)]"
    by (auto simp: runTool_def assms(2) split: prod.splits sum.splits)
  with all eid show ?thesis by simp
qed

section \<open>The concrete runs\<close>

lemma example_fetch:
  "calendar exampleHelpers (EventsGet ''primary'' ''E1'') (stored, failing) =
     (Inr (Some stored), (stored, failing))"
  by (simp add: exampleHelpers_def exampleCalendar_def)

lemma future_run:
  "snd (snd (updateFutureInstances exampleHelpers futureArgs ((weeklySeries, False), []))) =
     [EventsGet ''primary'' ''E1'',
      EventsPatch ''primary'' ''E1''
        (truncationBody [''RRULE:FREQ=WEEKLY;COUNT=20;UNTIL=2024-09-01T09:00:00-07:00''])
        (Some SendNone),
      EventsInsert ''primary''
        (newEvent [''location'' \<mapsto> JStr ''Room 1''] Map.empty futureArgs
           (Some ''2024-09-01T17:00:00.000Z''))
        (Some SendNone)]"
  by (simp add: updateFutureInstances_def futureArgs_def step_defs example_defs)

lemma future_scope_run:
  "snd (snd (updateEventWithScope id exampleHelpers futureArgs ((weeklySeries, False), []))) =
     [EventsGet ''primary'' ''E1'',
      EventsGet ''primary'' ''E1'',
      EventsPatch ''primary'' ''E1''
        (truncationBody [''RRULE:FREQ=WEEKLY;COUNT=20;UNTIL=2024-09-01T09:00:00-07:00''])
        (Some SendNone),
      EventsInsert ''primary''
        (newEvent [''location'' \<mapsto> JStr ''Room 1''] Map.empty futureArgs
           (Some ''2024-09-01T17:00:00.000Z''))
        (Some SendNone)]"
  by (simp add: handler_defs futureArgs_def step_defs example_defs)

theorem omitted_scope_is_all_witness:
  "getProp defaultRequest ''modificationScope'' = JUndefined \<and>
   UpdateEventArgumentsSchema_parse exampleParseDate earlyNow (JObj defaultRequest) =
     Inr defaultArgs \<and>
   modificationScope defaultArgs = ScopeAll \<and>
   snd (snd (runTool exampleParseDate earlyNow id exampleHelpers (JObj defaultRequest)
               ((weeklySeries, False), []))) =
     [EventsGet ''primary'' ''E1'',
      EventsPatch ''primary'' ''E1'' [''summary'' \<mapsto> JStr ''Daily sync''] None]"
proof -
  have undef: "getProp defaultRequest ''modificationScope'' = JUndefined"
    by (simp add: defaultRequest_def getProp_def)
  have acc: "UpdateEventArgumentsSchema_parse exampleParseDate earlyNow (JObj defaultRequest) =
      Inr defaultArgs"
    by (simp add: UpdateEventArgumentsSchema_parse_def defaultRequest_object refine_defs
        defaultArgs_def)
  have ids: "calendarId defaultArgs = ''primary''" "eventId defaultArgs = ''E1''"
    "sendUpdates defaultArgs = None"
    by (simp_all add: defaultArgs_def)
  have fetch: "calendar exampleHelpers (EventsGet (calendarId defaultArgs) (eventId defaultArgs))
      (weeklySeries, False) = (Inr (Some weeklySeries), (weeklySeries, False))"
    by (simp add: ids example_fetch)
  have build: "buildUpdateRequestBody exampleHelpers defaultArgs =
      Inr [''summary'' \<mapsto> JStr ''Daily sync'']"
    by (simp add: exampleHelpers_def defaultArgs_def)
  show ?thesis
    using undef acc omitted_scope_is_all[OF undef acc fetch build, of id]
    by (simp add: ids)
qed

text \<open>C7, as the claim states it, fails: the fetch of a \<open>future\<close>-scope update is a call of
  the operation and carries no \<open>sendUpdates\<close>.\<close>

theorem fetch_without_sendUpdates_counterexample:
  "EventsGet ''primary'' ''E1'' \<in>
     set (snd (snd (updateFutureInstances exampleHelpers futureArgs ((weeklySeries, False), [])))) \<and>
   \<not> carries (sendUpdates futureArgs) (EventsGet ''primary'' ''E1'')"
  by (simp add: future_run carries_def)

theorem sendUpdates_on_mutations_witness:
  "EventsPatch ''primary'' ''E1''
        (truncationBody [''RRULE:FREQ=WEEKLY;COUNT=20;UNTIL=2024-09-01T09:00:00-07:00''])
        (Some SendNone) \<in>
     set (snd (snd (updateEventWithScope id exampleHelpers futureArgs ((weeklySeries, False), [])))) \<and>
   sendUpdates futureArgs = Some SendNone \<and>
   carries (sendUpdates futureArgs)
     (EventsPatch ''primary'' ''E1''
        (truncationBody [''RRULE:FREQ=WEEKLY;COUNT=20;UNTIL=2024-09-01T09:00:00-07:00''])
        (Some SendNone) :: nat call)"
proof -
  let ?c = "EventsPatch ''primary'' ''E1''
        (truncationBody [''RRULE:FREQ=WEEKLY;COUNT=20;UNTIL=2024-09-01T09:00:00-07:00''])
        (Some SendNone) :: nat call"
  have mem: "?c \<in> set (snd (snd (updateEventWithScope id exampleHelpers futureArgs
                ((weeklySeries, False), []))))"
    by (simp add: future_scope_run)
  have mut: "mutating ?c"
    by (simp add: mutating_def)
  show ?thesis
    using mem sendUpdates_on_mutations[OF mem mut] by (simp add: futureArgs_def)
qed

theorem truncation_patch_body_witness:
  "EventsPatch ''primary'' ''E1''
        [''recurrence'' \<mapsto>
           JArr [JStr ''RRULE:FREQ=WEEKLY;COUNT=20;UNTIL=2024-09-01T09:00:00-07:00'']]
        (Some SendNone) \<in>
     set (snd (snd (updateFutureInstances exampleHelpers futureArgs ((weeklySeries, False), [])))) \<and>
   ev_recurrence weeklySeries = Value [''RRULE:FREQ=WEEKLY;COUNT=20''] \<and>
   updateRecurrenceWithUntil exampleHelpers [''RRULE:FREQ=WEEKLY;COUNT=20'']
       ''2024-09-01T09:00:00-07:00'' =
     Inr [''RRULE:FREQ=WEEKLY;COUNT=20;UNTIL=2024-09-01T09:00:00-07:00''] \<and>
   dom ([''recurrence'' \<mapsto>
           JArr [JStr ''RRULE:FREQ=WEEKLY;COUNT=20;UNTIL=2024-09-01T09:00:00-07:00'']]
          :: nat jsobject) = {''recurrence''} \<and>
   (ev_others weeklySeries ++
      [''recurrence'' \<mapsto>
         JArr [JStr ''RRULE:FREQ=WEEKLY;COUNT=20;UNTIL=2024-09-01T09:00:00-07:00'']])
     ''location'' = Some (JStr ''Room 1'')"
proof -
  let ?b = "[''recurrence'' \<mapsto>
              JArr [JStr ''RRULE:FREQ=WEEKLY;COUNT=20;UNTIL=2024-09-01T09:00:00-07:00'']]
              :: nat jsobject"
  have fetch: "calendar exampleHelpers (EventsGet (calendarId futureArgs) (eventId futureArgs))
      (weeklySeries, False) = (Inr (Some weeklySeries), (weeklySeries, False))"
    by (simp add: futureArgs_def example_fetch)
  have mem: "EventsPatch ''primary'' ''E1'' ?b (Some SendNone) \<in>
      set (snd (snd (updateFutureInstances exampleHelpers futureArgs ((weeklySeries, False), []))))"
    by (simp add: future_run truncationBody_def)
  note inst = truncation_patch_body[OF fetch mem]
  note only = inst[THEN conjunct2, THEN conjunct2, THEN conjunct2, THEN conjunct1]
  note frame = inst[THEN conjunct2, THEN conjunct2, THEN conjunct2, THEN conjunct2,
      rule_format, of "''location''" "ev_others weeklySeries"]
  have rec: "ev_recurrence weeklySeries = Value [''RRULE:FREQ=WEEKLY;COUNT=20'']"
    by (simp add: weeklySeries_def)
  have upd: "updateRecurrenceWithUntil exampleHelpers [''RRULE:FREQ=WEEKLY;COUNT=20'']
       ''2024-09-01T09:00:00-07:00'' =
     Inr [''RRULE:FREQ=WEEKLY;COUNT=20;UNTIL=2024-09-01T09:00:00-07:00'']"
    by (simp add: exampleHelpers_def)
  have "ev_others weeklySeries ''location'' = Some (JStr ''Room 1'')"
    by (simp add: weeklySeries_def)
  with frame have "(ev_others weeklySeries ++ ?b) ''location'' = Some (JStr ''Room 1'')"
    by simp
  with mem rec upd only show ?thesis
    by (intro conjI)
qed

theorem inserted_event_bounds_witness:
  "calculateEndTime exampleHelpers = calculateEndTime_spec exampleParseDate exampleToISOString \<and>
   start futureArgs = None \<and> end' futureArgs = None \<and>
   futureStartDate futureArgs = Some ''2024-09-01T09:00:00-07:00'' \<and>
   exampleToISOString
     (projectEnd (exampleParseDate ''2024-09-01T09:00:00-07:00'')
        (estimateDuration exampleParseDate weeklySeries)) = Inr ''2024-09-01T17:00:00.000Z'' \<and>
   newEvent [''location'' \<mapsto> JStr ''Room 1''] Map.empty futureArgs
       (Some ''2024-09-01T17:00:00.000Z'') ''start'' =
     Some (dateTimeObject (Some ''2024-09-01T09:00:00-07:00'') ''America/Los_Angeles'' :: nat jsval) \<and>
   newEvent [''location'' \<mapsto> JStr ''Room 1''] Map.empty futureArgs
       (Some ''2024-09-01T17:00:00.000Z'') ''end'' =
     Some (dateTimeObject (Some ''2024-09-01T17:00:00.000Z'') ''America/Los_Angeles'' :: nat jsval)"
proof -
  have spec: "calculateEndTime exampleHelpers =
      calculateEndTime_spec exampleParseDate exampleToISOString"
    by (simp add: exampleHelpers_def)
  have fetch: "calendar exampleHelpers (EventsGet (calendarId futureArgs) (eventId futureArgs))
      (weeklySeries, False) = (Inr (Some weeklySeries), (weeklySeries, False))"
    by (simp add: futureArgs_def example_fetch)
  have mem: "EventsInsert ''primary''
        (newEvent [''location'' \<mapsto> JStr ''Room 1''] Map.empty futureArgs
           (Some ''2024-09-01T17:00:00.000Z''))
        (Some SendNone) \<in>
      set (snd (snd (updateFutureInstances exampleHelpers futureArgs ((weeklySeries, False), []))))"
    by (simp add: future_run)
  have proj: "exampleToISOString
     (projectEnd (exampleParseDate ''2024-09-01T09:00:00-07:00'')
        (estimateDuration exampleParseDate weeklySeries)) = Inr ''2024-09-01T17:00:00.000Z''"
    by (simp add: example_defs)
  show ?thesis
    using spec proj inserted_event_bounds[OF spec fetch mem]
    by (simp add: futureArgs_def)
qed

text \<open>C2, as the claim states it, fails: when the caller moves the start, the inserted
  event starts at the caller's \<open>start\<close>, not at \<open>futureStartDate\<close>.\<close>

theorem inserted_start_counterexample:
  "map (insertedDateTime ''start'')
     (snd (snd (updateFutureInstances exampleHelpers movedFutureArgs ((weeklySeries, False), [])))) =
     [JUndefined, JUndefined, JStr ''2024-09-01T14:00:00-07:00''] \<and>
   futureStartDate movedFutureArgs = Some ''2024-09-01T09:00:00-07:00''"
  by (simp add: updateFutureInstances_def futureArgs_def step_defs example_defs
      insertedDateTime_def insertedProperty_def getProp_def)

theorem failed_insertion_not_rolled_back_witness:
  "calendar exampleHelpers
     (EventsPatch ''primary'' ''E1''
        (truncationBody [''RRULE:FREQ=WEEKLY;COUNT=20;UNTIL=2024-09-01T09:00:00-07:00''])
        (Some SendNone))
     (weeklySeries, True) = (Inr (Some truncatedSeries), (truncatedSeries, True)) \<and>
   calendar exampleHelpers
     (EventsInsert ''primary''
        (newEvent [''location'' \<mapsto> JStr ''Room 1''] Map.empty futureArgs
           (Some ''2024-09-01T17:00:00.000Z''))
        (Some SendNone))
     (truncatedSeries, True) = (Inl ''rateLimitExceeded'', (truncatedSeries, True)) \<and>
   updateEventWithScope id exampleHelpers futureArgs ((weeklySeries, True), []) =
     (Inl (Other (External ''rateLimitExceeded'')),
      ((truncatedSeries, True),
       [EventsGet ''primary'' ''E1'',
        EventsGet ''primary'' ''E1'',
        EventsPatch ''primary'' ''E1''
          (truncationBody [''RRULE:FREQ=WEEKLY;COUNT=20;UNTIL=2024-09-01T09:00:00-07:00''])
          (Some SendNone),
        EventsInsert ''primary''
          (newEvent [''location'' \<mapsto> JStr ''Room 1''] Map.empty futureArgs
             (Some ''2024-09-01T17:00:00.000Z''))
          (Some SendNone)]))"
proof -
  let ?rules = "[''RRULE:FREQ=WEEKLY;COUNT=20;UNTIL=2024-09-01T09:00:00-07:00'']"
  let ?new = "newEvent [''location'' \<mapsto> JStr ''Room 1''] Map.empty futureArgs
           (Some ''2024-09-01T17:00:00.000Z'') :: nat jsobject"
  have ids: "calendarId futureArgs = ''primary''" "eventId futureArgs = ''E1''"
    "sendUpdates futureArgs = Some SendNone"
    by (simp_all add: futureArgs_def)
  have scope: "modificationScope futureArgs = ScopeFuture"
    by (simp add: futureArgs_def)
  have future: "futureStartDate futureArgs = Some ''2024-09-01T09:00:00-07:00''"
    "''2024-09-01T09:00:00-07:00'' \<noteq> []"
    by (simp_all add: futureArgs_def)
  have detect: "calendar exampleHelpers (EventsGet (calendarId futureArgs) (eventId futureArgs))
      (weeklySeries, True) = (Inr (Some weeklySeries), (weeklySeries, True))"
    "classify weeklySeries = recurring"
    by (simp_all add: ids example_fetch classify_def weeklySeries_def)
  have rec: "ev_recurrence weeklySeries = Value [''RRULE:FREQ=WEEKLY;COUNT=20'']"
    by (simp add: weeklySeries_def)
  have until: "calculateUntilDate exampleHelpers ''2024-09-01T09:00:00-07:00'' =
      Inr ''2024-09-01T09:00:00-07:00''"
    "updateRecurrenceWithUntil exampleHelpers [''RRULE:FREQ=WEEKLY;COUNT=20'']
       ''2024-09-01T09:00:00-07:00'' = Inr ?rules"
    by (simp_all add: exampleHelpers_def)
  have patch: "calendar exampleHelpers
      (EventsPatch (calendarId futureArgs) (eventId futureArgs) (truncationBody ?rules)
         (sendUpdates futureArgs))
      (weeklySeries, True) = (Inr (Some truncatedSeries), (truncatedSeries, True))"
    by (simp add: ids exampleHelpers_def exampleCalendar_def truncationBody_def stringOf_def
        truncatedSeries_def Let_def)
  have build: "buildUpdateRequestBody exampleHelpers futureArgs = Inr Map.empty"
    by (simp add: exampleHelpers_def futureArgs_def)
  have endTime: "(if truthy (end' futureArgs) then Inr (the (end' futureArgs))
       else calculateEndTime exampleHelpers
              (the (js_or (start futureArgs) (futureStartDate futureArgs))) weeklySeries) =
      Inr ''2024-09-01T17:00:00.000Z''"
    by (simp add: futureArgs_def example_defs)
  have clean: "cleanEventForDuplication exampleHelpers weeklySeries =
      Inr [''location'' \<mapsto> JStr ''Room 1'']"
    by (simp add: exampleHelpers_def weeklySeries_def)
  have insert: "calendar exampleHelpers
      (EventsInsert (calendarId futureArgs) ?new (sendUpdates futureArgs))
      (truncatedSeries, True) = (Inl ''rateLimitExceeded'', (truncatedSeries, True))"
    "\<forall>created. (Inl ''rateLimitExceeded'' :: string + nat Event option) \<noteq> Inr (Some created)"
    by (simp_all add: ids exampleHelpers_def exampleCalendar_def)
  note run = failed_insertion_not_rolled_back[OF scope future detect detect(1) rec until patch
      build endTime clean insert, of id]
  show ?thesis
    using patch insert(1) run by (simp add: ids)
qed

end
